theory Spec2Isabelle
  imports Main
begin

section \<open>JavaScript string primitives used by extension.ts\<close>

text \<open>
  Strings are lists of characters. A character stands for one code unit in the Latin-1
  range; \<open>length\<close> is the \<open>.length\<close> of the source.
\<close>

definition dq :: string where
  "dq = [CHR 0x22]"

text \<open>Truthiness of a string: only the empty string is falsy.\<close>

definition truthy :: "string \<Rightarrow> bool" where
  "truthy s = (s \<noteq> [])"

text \<open>Truthiness of \<open>string | undefined\<close>.\<close>

fun truthyOpt :: "string option \<Rightarrow> bool" where
  "truthyOpt None = False"
| "truthyOpt (Some s) = truthy s"

text \<open>White space removed by \<open>String.prototype.trim\<close> (the code units below 256).\<close>

definition isWhiteSpace :: "char \<Rightarrow> bool" where
  "isWhiteSpace c = ((of_char c :: nat) \<in> {9, 10, 11, 12, 13, 32, 160})"

definition trim :: "string \<Rightarrow> string" where
  "trim s = rev (dropWhile isWhiteSpace (rev (dropWhile isWhiteSpace s)))"

definition toLowerChar :: "char \<Rightarrow> char" where
  "toLowerChar c =
     (let n = (of_char c :: nat)
      in if (65 \<le> n \<and> n \<le> 90) \<or> (192 \<le> n \<and> n \<le> 222 \<and> n \<noteq> 215)
         then char_of (n + 32) else c)"

definition toLowerCase :: "string \<Rightarrow> string" where
  "toLowerCase s = map toLowerChar s"

definition startsWith :: "string \<Rightarrow> string \<Rightarrow> bool" where
  "startsWith s p = (take (length p) s = p)"

text \<open>\<open>s.includes(p)\<close>: \<open>p\<close> occurs in \<open>s\<close> as a contiguous substring.\<close>

fun includesStr :: "string \<Rightarrow> string \<Rightarrow> bool" where
  "includesStr [] p = (p = [])"
| "includesStr (c # cs) p = (startsWith (c # cs) p \<or> includesStr cs p)"

text \<open>An exit code in a template string: the decimal numeral of the integer.\<close>

definition digitChar :: "nat \<Rightarrow> char" where
  "digitChar d = char_of (48 + d)"

fun natToString :: "nat \<Rightarrow> string" where
  "natToString n =
     (if n < 10 then [digitChar n] else natToString (n div 10) @ [digitChar (n mod 10)])"

declare natToString.simps [simp del]

definition intToString :: "int \<Rightarrow> string" where
  "intToString i = (if i < 0 then CHR ''-'' # natToString (nat (- i)) else natToString (nat i))"

section \<open>Observable effects\<close>

text \<open>
  Every call the extension makes on a collaborator is recorded as an event: entries of the
  log output channel, pop-up notifications of the editor window, and subprocess calls.
\<close>

datatype event =
    LogInfo "string list"
  | LogWarn "string list"
  | LogError "string list"
  | ConsoleDebug string
  | ShowErrorMessage string
  | ShowInformationMessage string
  | AccessSync string
  | Activate
  | ExecSync string
  | Exec string
  | Spawn string "string list" bool
  | StdinWrite string
  | StdinEnd

section \<open>Module-level cache\<close>

text \<open>
  \<open>mdformatFound: boolean | undefined\<close> and
  \<open>pythonPathUsedForLastCheck: string | undefined\<close>; \<open>None\<close> is \<open>undefined\<close>.
\<close>

record cache =
  mdformatFound :: "bool option"
  pythonPathUsedForLastCheck :: "string option"

definition initialCache :: cache where
  "initialCache = \<lparr> mdformatFound = None, pythonPathUsedForLastCheck = None \<rparr>"

section \<open>The environment of one request\<close>

text \<open>
  The value of the \<open>wrap\<close> setting: \<open>string | number\<close>. A number is given by the text
  that \<open>String\<close> yields for it (\<open>88\<close> by \<open>''88''\<close>), so that \<open>String(wrap)\<close> is exact
  for every number.
\<close>

datatype wrap_value = WrapString string | WrapNumber string

fun wrapToString :: "wrap_value \<Rightarrow> string" where
  "wrapToString (WrapString s) = s"
| "wrapToString (WrapNumber t) = t"

text \<open>What \<open>getExecutionDetails(documentUri)\<close> of the Python extension does.\<close>

datatype exec_details =
    DetailsThrows
  | DetailsUndefined
  | Details "string list option"

text \<open>
  The \<open>ms-python.python\<close> extension: \<open>isActive\<close> before any activation;
  \<open>activate\<close> is \<open>None\<close> when the activation promise rejects and \<open>Some b\<close> when it
  fulfils with \<open>isActive\<close> being \<open>b\<close> afterwards; \<open>exportsSettings\<close> says whether
  \<open>exports && exports.settings\<close> is truthy when queried.
\<close>

record python_extension =
  isActive :: bool
  activate :: "bool option"
  exportsSettings :: bool
  getExecutionDetails :: exec_details

text \<open>The callback arguments of \<open>cp.exec\<close>: \<open>error\<close> (its message), \<open>stdout\<close>, \<open>stderr\<close>.\<close>

record exec_result =
  execError :: "string option"
  execStdout :: string
  execStderr :: string

text \<open>
  What \<open>cp.spawn\<close> does, and the events the child process then emits on the handlers
  registered by the formatter. \<open>CloseEvent code signal cancelled\<close> carries the value of
  \<open>token.isCancellationRequested\<close> read by the handler. \<open>SpawnThrows message\<close> is not an
  event of a process: at the head of the list it says that the call of \<open>cp.spawn\<close> itself
  throws (an invalid argument such as a string with a null byte, or an error the runtime
  raises at once), so that there is no child process and nothing follows.
\<close>

datatype proc_event =
    StdoutData string
  | StderrData string
  | ErrorEvent string
  | CloseEvent "int option" "string option" bool
  | SpawnThrows string

record env =
  isWindows :: bool
  cfgPythonPath :: "string option"
  cfgWrap :: wrap_value
  cfgEndOfLine :: string
  cfgNoValidate :: bool
  cfgArgs :: "string list"
  accessSync :: "string \<Rightarrow> bool"
  getExtension :: "python_extension option"
  execSync :: "string \<Rightarrow> string option"
  exec :: "string \<Rightarrow> exec_result"
  documentText :: string
  spawnEvents :: "proc_event list"

section \<open>getPythonInterpreter\<close>

text \<open>Step 1: the user-defined \<open>mdformat.pythonPath\<close> setting.\<close>

definition invalidPathMessage :: "string \<Rightarrow> event" where
  "invalidPathMessage p =
     LogError [''Provided pythonPath '' @ p @ '' is not a valid file. Trying to find another interpreter.'']"

definition fromUserPath :: "env \<Rightarrow> string option \<times> event list" where
  "fromUserPath e =
     (case cfgPythonPath e of
        None \<Rightarrow> (None, [])
      | Some userPythonPath \<Rightarrow>
          if truthy userPythonPath \<and> trim userPythonPath \<noteq> [] \<and> userPythonPath \<noteq> ''null''
          then (let ev = [LogInfo [''Using Python interpreter from '' @ dq @ ''mdformat.pythonPath''
                                     @ dq @ '': '' @ userPythonPath],
                          AccessSync userPythonPath]
                in if accessSync e userPythonPath
                   then (Some userPythonPath, ev)
                   else (None, ev @ [invalidPathMessage userPythonPath]))
          else (None, []))"

text \<open>Step 2: the interpreter selected in the Python extension.\<close>

definition extensionError :: "event" where
  "extensionError =
     LogError [''Error while trying to get interpreter from ms-python.python extension:'', ''error'']"

definition queryExtension :: "python_extension \<Rightarrow> bool \<Rightarrow> string option \<times> event list" where
  "queryExtension ext active =
     (if active \<and> exportsSettings ext
      then (case getExecutionDetails ext of
              DetailsThrows \<Rightarrow> (None, [extensionError])
            | Details (Some (interpreterFromExtension # rest)) \<Rightarrow>
                (Some interpreterFromExtension,
                 [LogInfo [''Using Python interpreter from ms-python.python extension: ''
                             @ interpreterFromExtension]])
            | _ \<Rightarrow> (None, [LogInfo [''ms-python.python extension is active, but no interpreter selected or found through it.'']]))
      else (None, [LogInfo [''ms-python.python extension present but not fully active or exports not available when queried for path.'']]))"

definition fromExtension :: "env \<Rightarrow> string option \<times> event list" where
  "fromExtension e =
     (case getExtension e of
        None \<Rightarrow> (None, [LogInfo [''ms-python.python extension not installed. Skipping its interpreter discovery.'']])
      | Some ext \<Rightarrow>
          if \<not> isActive ext
          then (let ev = [LogInfo [''Attempting to activate ms-python.python extension for interpreter path...''],
                          Activate]
                in case activate ext of
                     None \<Rightarrow> (None, ev @ [extensionError])
                   | Some active \<Rightarrow>
                       (let (r, ev') = queryExtension ext active in (r, ev @ ev')))
          else queryExtension ext True)"

text \<open>Step 3: common global executables, probed in order.\<close>

definition commonPythons :: "bool \<Rightarrow> string list" where
  "commonPythons windows =
     (if windows then [''python.exe'', ''python3.exe'', ''py.exe''] else [''python3'', ''python''])"

definition versionCommand :: "string \<Rightarrow> string" where
  "versionCommand pyCmd = dq @ pyCmd @ dq @ '' --version''"

fun probeLoop :: "env \<Rightarrow> string list \<Rightarrow> string option \<times> event list" where
  "probeLoop e [] = (None, [])"
| "probeLoop e (pyCmd # others) =
     (case execSync e (versionCommand pyCmd) of
        None \<Rightarrow>
          (let (r, ev) = probeLoop e others
           in (r, ExecSync (versionCommand pyCmd)
                  # ConsoleDebug (''Command '' @ [CHR 0x27] @ pyCmd @ '' --version'' @ [CHR 0x27]
                                   @ '' failed, trying next global Python.'') # ev))
      | Some commandOutput \<Rightarrow>
          if includesStr (toLowerCase commandOutput) ''python''
          then (Some pyCmd, [ExecSync (versionCommand pyCmd), LogInfo [''Found global Python: '' @ pyCmd]])
          else (let (r, ev) = probeLoop e others in (r, ExecSync (versionCommand pyCmd) # ev)))"

definition fromPath :: "env \<Rightarrow> string option \<times> event list" where
  "fromPath e =
     (let (r, ev) = probeLoop e (commonPythons (isWindows e));
          ev1 = LogInfo [''Trying to find a global Python interpreter in PATH...''] # ev
      in case r of
           Some pyCmd \<Rightarrow> (Some pyCmd, ev1)
         | None \<Rightarrow> (None, ev1 @ [LogWarn [''No suitable Python interpreter found through settings, Python extension, or system PATH.'']]))"

definition getPythonInterpreter :: "env \<Rightarrow> string option \<times> event list" where
  "getPythonInterpreter e =
     (case fromUserPath e of
        (Some userPythonPath, ev1) \<Rightarrow> (Some userPythonPath, ev1)
      | (None, ev1) \<Rightarrow>
          (case fromExtension e of
             (Some interpreterFromExtension, ev2) \<Rightarrow> (Some interpreterFromExtension, ev1 @ ev2)
           | (None, ev2) \<Rightarrow>
               (let (r, ev3) = fromPath e in (r, ev1 @ ev2 @ ev3))))"

section \<open>checkMdformatAvailability\<close>

text \<open>
  Runs \<open>"<interpreter>" -m mdformat --version\<close> and stores the verdict and the interpreter
  in the module-level cache. Returns the verdict, the new cache and the events.
\<close>

definition checkCommand :: "string \<Rightarrow> string" where
  "checkCommand interpreterPath = dq @ interpreterPath @ dq @ '' -m mdformat --version''"

definition execCallback :: "string \<Rightarrow> exec_result \<Rightarrow> cache \<Rightarrow> bool \<times> cache \<times> event list" where
  "execCallback interpreterPath r c =
     (let c1 = c\<lparr>pythonPathUsedForLastCheck := Some interpreterPath\<rparr>
      in case execError r of
           Some message \<Rightarrow>
             (False, c1\<lparr>mdformatFound := Some False\<rparr>,
              LogError [''mdformat check failed for '' @ interpreterPath @ '':'', message]
                # (if truthy (execStderr r) then [LogError [''mdformat stderr:'', trim (execStderr r)]]
                   else []))
         | None \<Rightarrow>
             (True, c1\<lparr>mdformatFound := Some True\<rparr>,
              [LogInfo [''mdformat found with '' @ interpreterPath @ ''. Version: ''
                          @ trim (execStdout r)]]))"

definition checkMdformatAvailability ::
  "env \<Rightarrow> string option \<Rightarrow> cache \<Rightarrow> bool \<times> cache \<times> event list" where
  "checkMdformatAvailability e pythonToCheck c =
     (let (interpreterPath, ev0) =
            (if truthyOpt pythonToCheck then (pythonToCheck, []) else getPythonInterpreter e)
      in case interpreterPath of
           None \<Rightarrow>
             (False, c\<lparr>mdformatFound := Some False, pythonPathUsedForLastCheck := None\<rparr>,
              ev0 @ [LogWarn [''No Python interpreter path provided or found for mdformat check.'']])
         | Some p \<Rightarrow>
             if \<not> truthy p
             then (False, c\<lparr>mdformatFound := Some False, pythonPathUsedForLastCheck := None\<rparr>,
                   ev0 @ [LogWarn [''No Python interpreter path provided or found for mdformat check.'']])
             else (let (b, c', ev1) = execCallback p (exec e (checkCommand p)) c
                   in (b, c', ev0 @ [LogInfo [''Checking for mdformat using Python: '' @ p],
                                     Exec (checkCommand p)] @ ev1)))"

definition showMdformatNotAvailableError :: "string option \<Rightarrow> event list" where
  "showMdformatNotAvailableError attemptedPythonPath =
     (let interpreterMsg =
            (case attemptedPythonPath of
               Some p \<Rightarrow>
                 if truthy p then ''the Python interpreter ('' @ [CHR 0x27] @ p @ [CHR 0x27] @ '')''
                 else ''your Python environment (no interpreter was selected/found, or the path was invalid)''
             | None \<Rightarrow> ''your Python environment (no interpreter was selected/found, or the path was invalid)'')
      in [ShowErrorMessage (''mdformat was not found using '' @ interpreterMsg @ ''. ''
            @ ''Make sure you have selected the right Python interpreter (or set '' @ dq
            @ ''mdformat.pythonPath'' @ dq
            @ '') and have mdformat installed in that environment (e.g., '' @ [CHR 0x27]
            @ ''pip install mdformat'' @ [CHR 0x27] @ '').'')])"

section \<open>Cache invalidation on interpreter change\<close>

text \<open>
  The callback registered with \<open>onDidChangeExecutionDetails\<close> in \<open>activate\<close>; the flag
  tells the registration made after activating the Python extension from the direct one.
\<close>

definition onDidChangeExecutionDetails :: "bool \<Rightarrow> cache \<Rightarrow> cache \<times> event list" where
  "onDidChangeExecutionDetails afterActivation c =
     (c\<lparr>mdformatFound := None\<rparr>,
      [LogInfo [if afterActivation
                then ''Python execution details changed (after activation). mdformat availability will be re-evaluated on next format attempt.''
                else ''Python execution details changed. mdformat availability will be re-evaluated on next format attempt.'']])"

section \<open>The formatting invocation\<close>

text \<open>The argument list handed to \<open>cp.spawn\<close>, built by successive \<open>push\<close> calls.\<close>

definition buildArgs :: "env \<Rightarrow> string list" where
  "buildArgs e =
     (let args0 = [''-m'', ''mdformat''];
          wrap = cfgWrap e;
          args1 = (if wrap \<noteq> WrapString ''keep'' \<or> (case wrap of WrapNumber n \<Rightarrow> True | _ \<Rightarrow> False)
                   then args0 @ [''--wrap'', wrapToString wrap] else args0);
          args2 = args1 @ [''--end-of-line'', cfgEndOfLine e];
          args3 = (if cfgNoValidate e then args2 @ [''--no-validate''] else args2);
          args4 = args3 @ cfgArgs e
      in args4 @ [''-''])"

text \<open>
  A text edit replaces the range between two positions by a new text. A position is
  represented by the offset \<open>document.positionAt\<close> was given.
\<close>

datatype text_edit = Replace nat nat string

datatype rejection = RejectError string | RejectString string

datatype settlement = Resolve "text_edit list" | Reject rejection

text \<open>A promise settles once: later \<open>resolve\<close> and \<open>reject\<close> calls have no effect.\<close>

definition settle :: "settlement \<Rightarrow> settlement option \<Rightarrow> settlement option" where
  "settle v s = (case s of None \<Rightarrow> Some v | Some w \<Rightarrow> Some w)"

record proc_state =
  pCache :: cache
  pStdout :: string
  pStderr :: string
  pSettled :: "settlement option"
  pEvents :: "event list"

definition codeToString :: "int option \<Rightarrow> string" where
  "codeToString code = (case code of None \<Rightarrow> ''null'' | Some n \<Rightarrow> intToString n)"

definition signalToString :: "string option \<Rightarrow> string" where
  "signalToString signal = (case signal of None \<Rightarrow> ''null'' | Some s \<Rightarrow> s)"

definition onError :: "string \<Rightarrow> string \<Rightarrow> proc_state \<Rightarrow> proc_state" where
  "onError pythonExecutableForMdformat message s =
     s\<lparr>pEvents := pEvents s @
          [LogError [''Failed to start mdformat process:'', message],
           ShowErrorMessage (''mdformat failed to start: '' @ message @ ''. Is '' @ dq
              @ pythonExecutableForMdformat @ dq @ '' a valid Python path?'')],
       pCache := (pCache s)\<lparr>mdformatFound := Some False,
                    pythonPathUsedForLastCheck := Some pythonExecutableForMdformat\<rparr>,
       pSettled := settle (Reject (RejectError message)) (pSettled s)\<rparr>"

definition onClose ::
  "string \<Rightarrow> int option \<Rightarrow> string option \<Rightarrow> bool \<Rightarrow> proc_state \<Rightarrow> proc_state" where
  "onClose originalText code signal isCancellationRequested s =
     (if isCancellationRequested
      then s\<lparr>pEvents := pEvents s @ [LogInfo [''Formatting cancelled by user.'']],
             pSettled := settle (Reject (RejectString ''Cancelled'')) (pSettled s)\<rparr>
      else if truthyOpt signal
      then s\<lparr>pEvents := pEvents s @
                [LogError [''mdformat process terminated by signal: '' @ signalToString signal],
                 ShowErrorMessage (''mdformat process terminated unexpectedly (signal: ''
                    @ signalToString signal @ '').'')],
             pSettled := settle (Reject (RejectString (''Terminated by signal '' @ signalToString signal)))
                           (pSettled s)\<rparr>
      else if code \<noteq> Some 0
      then (let stderr = pStderr s;
                detailedError =
                  (if \<not> truthy (trim stderr)
                   then ''mdformat exited with code '' @ codeToString code @ ''. Check '' @ dq
                        @ ''Output > mdformat'' @ dq @ '' for details.''
                   else trim stderr)
            in s\<lparr>pEvents := pEvents s @
                    [LogError [''mdformat process exited with code '' @ codeToString code @ ''.''],
                     LogError [''mdformat stderr:'', trim stderr],
                     ShowErrorMessage (''mdformat formatting failed: '' @ detailedError)],
                 pSettled := settle (Reject (RejectString
                               (if truthy stderr then stderr
                                else ''mdformat exited with code '' @ codeToString code)))
                               (pSettled s)\<rparr>)
      else (let stdout = pStdout s
            in if length stdout > 0 \<and> stdout \<noteq> originalText
               then s\<lparr>pEvents := pEvents s @ [LogInfo [''Formatted successfully.'']],
                      pSettled := settle (Resolve [Replace 0 (length originalText) stdout])
                                    (pSettled s)\<rparr>
               else s\<lparr>pSettled := settle (Resolve []) (pSettled s)\<rparr>))"

fun onEvent :: "string \<Rightarrow> string \<Rightarrow> proc_event \<Rightarrow> proc_state \<Rightarrow> proc_state" where
  "onEvent py originalText (StdoutData d) s = s\<lparr>pStdout := pStdout s @ d\<rparr>"
| "onEvent py originalText (StderrData d) s = s\<lparr>pStderr := pStderr s @ d\<rparr>"
| "onEvent py originalText (ErrorEvent message) s = onError py message s"
| "onEvent py originalText (CloseEvent code signal cancelled) s =
     onClose originalText code signal cancelled s"
| "onEvent py originalText (SpawnThrows message) s = s"

text \<open>
  The promise executor: spawn the process, register the handlers, write the document to
  its standard input and close it; then the handlers run on the events of the process, in
  order. The promise stays pending (\<open>None\<close>) when no handler settles it. There is no
  \<open>try\<close> around \<open>cp.spawn\<close>: when the call throws, the executor ends there and the
  promise is rejected with the error thrown; no handler is registered, nothing is written,
  logged or shown, and the cache is not touched.
\<close>

fun spawnThrew :: "proc_event list \<Rightarrow> string option" where
  "spawnThrew (SpawnThrows message # evs) = Some message"
| "spawnThrew evs = None"

definition spawnCommand :: "bool \<Rightarrow> string \<Rightarrow> string" where
  "spawnCommand windows pythonExecutableForMdformat =
     (if windows then ''cmd /c chcp 65001>nul &&'' @ pythonExecutableForMdformat
      else pythonExecutableForMdformat)"

definition runProcess :: "env \<Rightarrow> string \<Rightarrow> cache \<Rightarrow> proc_state" where
  "runProcess e pythonExecutableForMdformat c =
     (let originalText = documentText e;
          call = Spawn (spawnCommand (isWindows e) pythonExecutableForMdformat)
                   (buildArgs e) (isWindows e)
      in case spawnThrew (spawnEvents e) of
           Some message \<Rightarrow>
             \<lparr> pCache = c, pStdout = [], pStderr = [],
               pSettled = Some (Reject (RejectError message)), pEvents = [call] \<rparr>
         | None \<Rightarrow>
             fold (onEvent pythonExecutableForMdformat originalText) (spawnEvents e)
               \<lparr> pCache = c, pStdout = [], pStderr = [], pSettled = None,
                 pEvents = [call, StdinWrite originalText, StdinEnd] \<rparr>)"

section \<open>provideDocumentFormattingEdits\<close>

definition needsCheck :: "cache \<Rightarrow> string \<Rightarrow> bool" where
  "needsCheck c currentInterpreterForFormatting =
     (mdformatFound c = None
      \<or> pythonPathUsedForLastCheck c \<noteq> Some currentInterpreterForFormatting
      \<or> mdformatFound c = Some False)"

definition noInterpreterMessage :: string where
  "noInterpreterMessage =
     ''mdformat: Cannot format. No Python interpreter found. ''
     @ ''Please ensure Python is installed and in your PATH, or select an interpreter using the Python extension, ''
     @ ''or set the '' @ dq @ ''mdformat.pythonPath'' @ dq @ '' setting.''"

text \<open>
  The availability step of the formatter (the re-check decision and the check itself):
  the cache and the events after it.
\<close>

definition ensureChecked :: "env \<Rightarrow> string \<Rightarrow> cache \<Rightarrow> cache \<times> event list" where
  "ensureChecked e currentInterpreterForFormatting c =
     (if needsCheck c currentInterpreterForFormatting
      then (let (b, c', ev) = checkMdformatAvailability e (Some currentInterpreterForFormatting) c
            in (c', LogInfo [''Formatting: Re-evaluating mdformat availability for interpreter: ''
                               @ currentInterpreterForFormatting] # ev))
      else (c, []))"

definition formattingWith :: "string \<Rightarrow> event" where
  "formattingWith py = LogInfo [''Formatting with mdformat using: '' @ py]"

text \<open>Returns the settlement of the returned promise, the cache afterwards and the events.\<close>

definition formatWith ::
  "env \<Rightarrow> string \<Rightarrow> cache \<Rightarrow> settlement option \<times> cache \<times> event list" where
  "formatWith e currentInterpreterForFormatting c =
     (let (c1, ev1) = ensureChecked e currentInterpreterForFormatting c
      in if mdformatFound c1 \<noteq> Some True \<or> \<not> truthyOpt (pythonPathUsedForLastCheck c1)
         then (Some (Resolve []), c1,
               ev1 @ showMdformatNotAvailableError
                       (if truthyOpt (pythonPathUsedForLastCheck c1) then pythonPathUsedForLastCheck c1
                        else Some currentInterpreterForFormatting))
         else (case pythonPathUsedForLastCheck c1 of
                 None \<Rightarrow> (Some (Resolve []), c1, ev1)
               | Some pythonExecutableForMdformat \<Rightarrow>
                   (let s = runProcess e pythonExecutableForMdformat c1
                    in (pSettled s, pCache s,
                        ev1 @ [formattingWith pythonExecutableForMdformat] @ pEvents s))))"

definition provideDocumentFormattingEdits ::
  "env \<Rightarrow> cache \<Rightarrow> settlement option \<times> cache \<times> event list" where
  "provideDocumentFormattingEdits e c =
     (let (interp, ev0) = getPythonInterpreter e
      in case interp of
           None \<Rightarrow> (Some (Resolve []), c, ev0 @ [ShowErrorMessage noInterpreterMessage])
         | Some currentInterpreterForFormatting \<Rightarrow>
             if \<not> truthy currentInterpreterForFormatting
             then (Some (Resolve []), c, ev0 @ [ShowErrorMessage noInterpreterMessage])
             else (let (r, c', ev) = formatWith e currentInterpreterForFormatting c
                   in (r, c', ev0 @ ev)))"

section \<open>Notions used in the statements\<close>

text \<open>
  A terminal element is one that settles the promise: an error event, a close event, or
  the throw of \<open>cp.spawn\<close>. The output accumulated from a run of events is the
  concatenation of its data chunks.
\<close>

fun isTerminal :: "proc_event \<Rightarrow> bool" where
  "isTerminal (ErrorEvent m) = True"
| "isTerminal (CloseEvent code signal cancelled) = True"
| "isTerminal (SpawnThrows m) = True"
| "isTerminal _ = False"

fun isErrorEvent :: "proc_event \<Rightarrow> bool" where
  "isErrorEvent (ErrorEvent m) = True"
| "isErrorEvent _ = False"

fun stdoutOf :: "proc_event list \<Rightarrow> string" where
  "stdoutOf [] = []"
| "stdoutOf (StdoutData d # evs) = d @ stdoutOf evs"
| "stdoutOf (x # evs) = stdoutOf evs"

fun stderrOf :: "proc_event list \<Rightarrow> string" where
  "stderrOf [] = []"
| "stderrOf (StderrData d # evs) = d @ stderrOf evs"
| "stderrOf (x # evs) = stderrOf evs"

fun isExec :: "event \<Rightarrow> bool" where
  "isExec (Exec c) = True"
| "isExec _ = False"

fun isExecSync :: "event \<Rightarrow> bool" where
  "isExecSync (ExecSync c) = True"
| "isExecSync _ = False"

fun isSpawn :: "event \<Rightarrow> bool" where
  "isSpawn (Spawn c a sh) = True"
| "isSpawn _ = False"

fun isShowError :: "event \<Rightarrow> bool" where
  "isShowError (ShowErrorMessage m) = True"
| "isShowError _ = False"

text \<open>Events of the three kinds the theorems below count.\<close>

definition counted :: "event \<Rightarrow> bool" where
  "counted x = (isExec x \<or> isSpawn x \<or> isShowError x)"

text \<open>The two definite states of the cache for an interpreter.\<close>

definition unavailableFor :: "string \<Rightarrow> cache" where
  "unavailableFor py = \<lparr> mdformatFound = Some False, pythonPathUsedForLastCheck = Some py \<rparr>"

definition availableFor :: "string \<Rightarrow> cache" where
  "availableFor py = \<lparr> mdformatFound = Some True, pythonPathUsedForLastCheck = Some py \<rparr>"

text \<open>
  An example environment: a Unix-like host with no configured path and no Python
  extension, where \<open>python3\<close> is on the PATH and has mdformat installed. The document
  is \<open># H\<close>.
\<close>

definition exEnv :: env where
  "exEnv = \<lparr> isWindows = False, cfgPythonPath = None, cfgWrap = WrapString ''keep'',
     cfgEndOfLine = ''keep'', cfgNoValidate = False, cfgArgs = [],
     accessSync = (\<lambda>p. False), getExtension = None,
     execSync = (\<lambda>cmd. if cmd = versionCommand ''python3'' then Some ''Python 3.11.4'' else None),
     exec = (\<lambda>cmd. \<lparr> execError = None, execStdout = ''mdformat 0.7.17'', execStderr = [] \<rparr>),
     documentText = ''# H'',
     spawnEvents = [] \<rparr>"

text \<open>
  Variants of the example environment: what the spawned formatter process does, a Windows
  host whose first two candidates are not Python, and a configured path that is a bare
  command name.
\<close>

definition exEmptyOutput :: env where
  "exEmptyOutput = exEnv\<lparr>spawnEvents := [CloseEvent (Some 0) None False]\<rparr>"

definition exReformatted :: env where
  "exReformatted = exEnv\<lparr>spawnEvents := [StdoutData ''# '', StdoutData ''G'', CloseEvent (Some 0) None False]\<rparr>"

definition exUnchanged :: env where
  "exUnchanged = exEnv\<lparr>spawnEvents := [StdoutData ''# H'', CloseEvent (Some 0) None False]\<rparr>"

definition exWarning :: env where
  "exWarning = exEnv\<lparr>spawnEvents := [StderrData ''warning'', CloseEvent (Some 0) None False]\<rparr>"

definition exStartFailure :: env where
  "exStartFailure = exEnv\<lparr>spawnEvents := [ErrorEvent ''spawn python3 ENOENT'',
                                           CloseEvent (Some (- 2)) None False]\<rparr>"

definition exSyntaxError :: env where
  "exSyntaxError = exEnv\<lparr>spawnEvents := [StderrData ''syntax error'',
                                          CloseEvent (Some 1) None False]\<rparr>"

definition exCancelled :: env where
  "exCancelled = exEnv\<lparr>spawnEvents := [StdoutData ''# G'', CloseEvent (Some 0) None True]\<rparr>"

definition exWindows :: env where
  "exWindows = exEnv\<lparr>isWindows := True,
     execSync := (\<lambda>cmd. if cmd = versionCommand ''python3.exe'' then Some ''Microsoft Store stub''
                        else if cmd = versionCommand ''py.exe'' then Some ''PYTHON 3.12.0''
                        else None)\<rparr>"

definition exBareConfigured :: env where
  "exBareConfigured = exEnv\<lparr>cfgPythonPath := Some ''python3''\<rparr>"

definition exBlankConfigured :: env where
  "exBlankConfigured = exEnv\<lparr>cfgPythonPath := Some ''  ''\<rparr>"

text \<open>
  A host where \<open>python3\<close> is missing and \<open>python\<close> prints its version on the standard error
  stream only, so that the output read is empty.
\<close>

definition exNoPython :: env where
  "exNoPython = exEnv\<lparr>execSync := (\<lambda>cmd. if cmd = versionCommand ''python'' then Some [] else None)\<rparr>"

text \<open>A custom argument with a null byte, on which \<open>cp.spawn\<close> throws.\<close>

definition exSpawnThrows :: env where
  "exSpawnThrows = exEnv\<lparr>cfgArgs := [[CHR 0x00]],
     spawnEvents := [SpawnThrows ''The argument args[4] must be a string without null bytes.'']\<rparr>"

section \<open>Auxiliary facts\<close>

lemma startsWith_iff: "startsWith s p \<longleftrightarrow> (\<exists>v. s = p @ v)"
  unfolding startsWith_def
  by (metis append_eq_conv_conj append_take_drop_id)

lemma includesStr_iff: "includesStr s p \<longleftrightarrow> (\<exists>u v. s = u @ p @ v)"
proof (induction s)
  case Nil
  show ?case by auto
next
  case (Cons c cs)
  show ?case
  proof
    assume "includesStr (c # cs) p"
    then consider "startsWith (c # cs) p" | "includesStr cs p" by auto
    then show "\<exists>u v. c # cs = u @ p @ v"
    proof cases
      case 1
      then obtain v where "c # cs = p @ v" by (auto simp: startsWith_iff)
      then have "c # cs = [] @ p @ v" by simp
      then show ?thesis by blast
    next
      case 2
      then obtain u v where "cs = u @ p @ v" using Cons.IH by auto
      then have "c # cs = (c # u) @ p @ v" by simp
      then show ?thesis by blast
    qed
  next
    assume "\<exists>u v. c # cs = u @ p @ v"
    then obtain u v where uv: "c # cs = u @ p @ v" by auto
    show "includesStr (c # cs) p"
    proof (cases u)
      case Nil
      with uv have "startsWith (c # cs) p" by (auto simp: startsWith_iff)
      then show ?thesis by simp
    next
      case (Cons a u')
      with uv have "cs = u' @ p @ v" by simp
      then have "includesStr cs p" using Cons.IH by blast
      then show ?thesis by simp
    qed
  qed
qed

lemma settle_Some [simp]: "settle v (Some w) = Some w"
  by (simp add: settle_def)

lemma settle_None [simp]: "settle v None = Some v"
  by (simp add: settle_def)

lemma fold_data:
  "\<forall>x\<in>set pre. \<not> isTerminal x \<Longrightarrow>
   fold (onEvent py orig) pre s
     = s\<lparr>pStdout := pStdout s @ stdoutOf pre, pStderr := pStderr s @ stderrOf pre\<rparr>"
proof (induction pre arbitrary: s)
  case Nil
  show ?case by simp
next
  case (Cons x xs)
  then show ?case by (cases x) simp_all
qed

lemma onEvent_settled:
  "pSettled s = Some v \<Longrightarrow> pSettled (onEvent py orig x s) = Some v"
  by (cases x) (simp_all add: onError_def onClose_def Let_def)

lemma fold_settled:
  "pSettled s = Some v \<Longrightarrow> pSettled (fold (onEvent py orig) evs s) = Some v"
  by (induction evs arbitrary: s) (simp_all add: onEvent_settled)

lemma onEvent_cache_keep:
  "\<not> isErrorEvent x \<Longrightarrow> pCache (onEvent py orig x s) = pCache s"
  by (cases x) (simp_all add: onClose_def Let_def)

lemma fold_cache_keep:
  "\<forall>x\<in>set evs. \<not> isErrorEvent x \<Longrightarrow> pCache (fold (onEvent py orig) evs s) = pCache s"
  by (induction evs arbitrary: s) (simp_all add: onEvent_cache_keep)

lemma onEvent_cache_down:
  "pCache s = unavailableFor py \<Longrightarrow> pCache (onEvent py orig x s) = unavailableFor py"
  by (cases x) (simp_all add: onClose_def onError_def Let_def unavailableFor_def)

lemma fold_cache_down:
  "pCache s = unavailableFor py \<Longrightarrow> pCache (fold (onEvent py orig) evs s) = unavailableFor py"
  by (induction evs arbitrary: s) (simp_all add: onEvent_cache_down)

lemma fold_cache_error:
  "\<exists>x\<in>set evs. isErrorEvent x \<Longrightarrow> pCache (fold (onEvent py orig) evs s) = unavailableFor py"
proof (induction evs arbitrary: s)
  case Nil
  then show ?case by simp
next
  case (Cons x xs)
  show ?case
  proof (cases "isErrorEvent x")
    case True
    then obtain m where "x = ErrorEvent m" by (cases x) auto
    then have "pCache (onEvent py orig x s) = unavailableFor py"
      by (simp add: onError_def unavailableFor_def)
    then show ?thesis by (simp add: fold_cache_down)
  next
    case False
    with Cons.prems have "\<exists>x\<in>set xs. isErrorEvent x" by auto
    then show ?thesis using Cons.IH by simp
  qed
qed

lemma onEvent_no_exec:
  "filter isExec (pEvents (onEvent py orig x s)) = filter isExec (pEvents s)"
  by (cases x) (simp_all add: onClose_def onError_def Let_def)

lemma fold_no_exec:
  "filter isExec (pEvents (fold (onEvent py orig) evs s)) = filter isExec (pEvents s)"
  by (induction evs arbitrary: s) (simp_all add: onEvent_no_exec)

lemma runProcess_no_exec: "filter isExec (pEvents (runProcess e py c)) = []"
  by (simp add: runProcess_def Let_def fold_no_exec split: option.splits)

lemma counted_simps [simp]:
  "\<not> counted (LogInfo a)" "\<not> counted (LogWarn a)" "\<not> counted (LogError a)"
  "\<not> counted (ConsoleDebug b)" "\<not> counted (AccessSync b)" "\<not> counted Activate"
  "\<not> counted (ExecSync b)" "\<not> counted (StdinWrite b)" "\<not> counted StdinEnd"
  "counted (Exec b)" "counted (Spawn b a sh)" "counted (ShowErrorMessage b)"
  by (simp_all add: counted_def)

lemma probeLoop_quiet: "filter counted (snd (probeLoop e cs)) = []"
  by (induction cs) (auto split: option.splits prod.splits)

lemma fromPath_quiet: "filter counted (snd (fromPath e)) = []"
  using probeLoop_quiet [of e "commonPythons (isWindows e)"]
  by (auto simp: fromPath_def Let_def split: option.splits prod.splits)

lemma queryExtension_quiet: "filter counted (snd (queryExtension ext a)) = []"
  by (simp add: queryExtension_def extensionError_def
      split: exec_details.splits option.splits list.splits)

lemma fromExtension_quiet: "filter counted (snd (fromExtension e)) = []"
proof (cases "getExtension e")
  case None
  then show ?thesis by (simp add: fromExtension_def)
next
  case (Some ext)
  show ?thesis
  proof (cases "isActive ext")
    case True
    with Some show ?thesis by (simp add: fromExtension_def queryExtension_quiet)
  next
    case False
    show ?thesis
    proof (cases "activate ext")
      case None
      with Some False show ?thesis by (simp add: fromExtension_def extensionError_def)
    next
      case (Some active)
      with \<open>getExtension e = Some ext\<close> False queryExtension_quiet [of ext active]
      show ?thesis by (auto simp: fromExtension_def split: prod.splits)
    qed
  qed
qed

lemma fromUserPath_quiet: "filter counted (snd (fromUserPath e)) = []"
  by (simp add: fromUserPath_def invalidPathMessage_def Let_def split: option.splits)

lemma getPythonInterpreter_quiet: "filter counted (snd (getPythonInterpreter e)) = []"
  using fromUserPath_quiet [of e] fromExtension_quiet [of e] fromPath_quiet [of e]
  by (auto simp: getPythonInterpreter_def split: option.splits prod.splits)

lemma counted_filters:
  assumes "filter counted xs = []"
  shows "filter isExec xs = []" and "filter isSpawn xs = []" and "filter isShowError xs = []"
  using assms by (simp_all add: filter_empty_conv counted_def)

lemma execCallback_events:
  "filter counted (snd (snd (execCallback p r c))) = []"
  by (simp add: execCallback_def Let_def split: option.splits)

lemma execCallback_cache:
  "fst (snd (execCallback p r c))
     = c\<lparr>pythonPathUsedForLastCheck := Some p, mdformatFound := Some (execError r = None)\<rparr>"
  by (simp add: execCallback_def Let_def split: option.splits)

lemma check_truthy:
  assumes "truthy p"
  shows "checkMdformatAvailability e (Some p) c
     = (fst (execCallback p (exec e (checkCommand p)) c),
        fst (snd (execCallback p (exec e (checkCommand p)) c)),
        [LogInfo [''Checking for mdformat using Python: '' @ p], Exec (checkCommand p)]
          @ snd (snd (execCallback p (exec e (checkCommand p)) c)))"
  using assms by (simp add: checkMdformatAvailability_def split: prod.splits)

lemma ensureChecked_events:
  assumes "truthy cur"
  shows "filter isExec (snd (ensureChecked e cur c))
           = (if needsCheck c cur then [Exec (checkCommand cur)] else [])"
    and "filter isSpawn (snd (ensureChecked e cur c)) = []"
    and "filter isShowError (snd (ensureChecked e cur c)) = []"
  using assms counted_filters [OF execCallback_events [of cur "exec e (checkCommand cur)" c]]
  by (simp_all add: ensureChecked_def check_truthy)

lemma ensureChecked_available:
  assumes "truthy cur" and "mdformatFound (fst (ensureChecked e cur c)) = Some True"
  shows "fst (ensureChecked e cur c) = availableFor cur"
proof (cases "needsCheck c cur")
  case True
  with assms show ?thesis
    by (simp add: ensureChecked_def check_truthy execCallback_cache availableFor_def)
next
  case False
  then have "mdformatFound c = Some True" and "pythonPathUsedForLastCheck c = Some cur"
    by (auto simp: needsCheck_def)
  with False show ?thesis by (simp add: ensureChecked_def availableFor_def)
qed

lemma ensureChecked_hit:
  "\<not> needsCheck c cur \<Longrightarrow> ensureChecked e cur c = (c, [])"
  by (simp add: ensureChecked_def)

lemma formatWith_unfold:
  assumes "truthy cur"
  shows "formatWith e cur c =
     (if mdformatFound (fst (ensureChecked e cur c)) = Some True
      then (pSettled (runProcess e cur (availableFor cur)),
            pCache (runProcess e cur (availableFor cur)),
            snd (ensureChecked e cur c) @ [formattingWith cur]
              @ pEvents (runProcess e cur (availableFor cur)))
      else (Some (Resolve []), fst (ensureChecked e cur c),
            snd (ensureChecked e cur c) @ showMdformatNotAvailableError
               (if truthyOpt (pythonPathUsedForLastCheck (fst (ensureChecked e cur c)))
                then pythonPathUsedForLastCheck (fst (ensureChecked e cur c)) else Some cur)))"
proof (cases "mdformatFound (fst (ensureChecked e cur c)) = Some True")
  case True
  then have av: "fst (ensureChecked e cur c) = availableFor cur"
    using assms ensureChecked_available by blast
  obtain c1 ev1 where ec: "ensureChecked e cur c = (c1, ev1)" by (cases "ensureChecked e cur c")
  with av have "c1 = availableFor cur" by simp
  with ec True assms show ?thesis
    by (simp add: formatWith_def availableFor_def formattingWith_def Let_def)
next
  case False
  obtain c1 ev1 where ec: "ensureChecked e cur c = (c1, ev1)" by (cases "ensureChecked e cur c")
  with False show ?thesis by (simp add: formatWith_def)
qed

lemma pdfe_unfold:
  assumes "fst (getPythonInterpreter e) = Some cur" and "truthy cur"
  shows "provideDocumentFormattingEdits e c =
     (fst (formatWith e cur c), fst (snd (formatWith e cur c)),
      snd (getPythonInterpreter e) @ snd (snd (formatWith e cur c)))"
  using assms by (auto simp: provideDocumentFormattingEdits_def split: prod.splits)

lemma pdfe_no_interpreter:
  assumes "\<not> (\<exists>cur. fst (getPythonInterpreter e) = Some cur \<and> truthy cur)"
  shows "provideDocumentFormattingEdits e c =
     (Some (Resolve []), c, snd (getPythonInterpreter e) @ [ShowErrorMessage noInterpreterMessage])"
  using assms by (auto simp: provideDocumentFormattingEdits_def split: prod.splits option.splits)

lemma showMdformatNotAvailableError_events:
  "filter isSpawn (showMdformatNotAvailableError a) = []"
  "filter isExec (showMdformatNotAvailableError a) = []"
  by (simp_all add: showMdformatNotAvailableError_def Let_def)

lemma onEvent_events_spawn:
  "filter isSpawn (pEvents (onEvent py orig x s)) = filter isSpawn (pEvents s)"
  by (cases x) (simp_all add: onClose_def onError_def Let_def)

lemma fold_events_spawn:
  "filter isSpawn (pEvents (fold (onEvent py orig) evs s)) = filter isSpawn (pEvents s)"
  by (induction evs arbitrary: s) (simp_all add: onEvent_events_spawn)

lemma runProcess_spawn:
  "filter isSpawn (pEvents (runProcess e py c))
     = [Spawn (spawnCommand (isWindows e) py) (buildArgs e) (isWindows e)]"
  by (simp add: runProcess_def Let_def fold_events_spawn split: option.splits)

text \<open>The spawn of the formatter happens exactly when the availability step says Available.\<close>

lemma pdfe_spawned:
  assumes "filter isSpawn (snd (snd (provideDocumentFormattingEdits e c))) \<noteq> []"
  obtains cur where "fst (getPythonInterpreter e) = Some cur" and "truthy cur"
    and "mdformatFound (fst (ensureChecked e cur c)) = Some True"
    and "provideDocumentFormattingEdits e c =
           (pSettled (runProcess e cur (availableFor cur)),
            pCache (runProcess e cur (availableFor cur)),
            snd (getPythonInterpreter e) @ snd (ensureChecked e cur c) @ [formattingWith cur]
              @ pEvents (runProcess e cur (availableFor cur)))"
proof (cases "\<exists>cur. fst (getPythonInterpreter e) = Some cur \<and> truthy cur")
  case False
  then have "filter isSpawn (snd (snd (provideDocumentFormattingEdits e c))) = []"
    using counted_filters(2) [OF getPythonInterpreter_quiet [of e]]
    by (simp add: pdfe_no_interpreter)
  with assms show ?thesis by simp
next
  case True
  then obtain cur where cur: "fst (getPythonInterpreter e) = Some cur" "truthy cur" by blast
  show ?thesis
  proof (cases "mdformatFound (fst (ensureChecked e cur c)) = Some True")
    case True
    with cur have "provideDocumentFormattingEdits e c =
           (pSettled (runProcess e cur (availableFor cur)),
            pCache (runProcess e cur (availableFor cur)),
            snd (getPythonInterpreter e) @ snd (ensureChecked e cur c) @ [formattingWith cur]
              @ pEvents (runProcess e cur (availableFor cur)))"
      by (simp add: pdfe_unfold formatWith_unfold)
    with cur True that show ?thesis by blast
  next
    case False
    with cur have "filter isSpawn (snd (snd (provideDocumentFormattingEdits e c))) = []"
      using counted_filters(2) [OF getPythonInterpreter_quiet [of e]]
        ensureChecked_events(2) [OF cur(2), of e c]
      by (simp add: pdfe_unfold formatWith_unfold showMdformatNotAvailableError_events)
    with assms show ?thesis by simp
  qed
qed

lemma exEnv_interpreter: "fst (getPythonInterpreter (exEnv\<lparr>spawnEvents := evs\<rparr>)) = Some ''python3''"
  by (simp add: exEnv_def getPythonInterpreter_def fromUserPath_def fromExtension_def fromPath_def
      commonPythons_def versionCommand_def dq_def startsWith_def toLowerCase_def toLowerChar_def
      Let_def char_of_eq_iff)

lemma onEvent_terminal_settles:
  "isTerminal t \<Longrightarrow> spawnThrew [t] = None \<Longrightarrow> \<exists>v. pSettled (onEvent py orig t s) = Some v"
  by (cases t; cases "pSettled s") (simp_all add: onError_def onClose_def Let_def)

lemma spawnThrew_data:
  "\<forall>x\<in>set pre. \<not> isTerminal x \<Longrightarrow> spawnThrew [t] = None \<Longrightarrow> spawnThrew (pre @ t # rest) = None"
proof (cases pre)
  case Nil
  assume "spawnThrew [t] = None"
  with Nil show ?thesis by (cases t) simp_all
next
  case (Cons x xs)
  assume "\<forall>x\<in>set pre. \<not> isTerminal x"
  with Cons have "\<not> isTerminal x" by simp
  with Cons show ?thesis by (cases x) simp_all
qed

lemma runProcess_started:
  "spawnThrew (spawnEvents e) = None \<Longrightarrow>
   runProcess e py c
     = fold (onEvent py (documentText e)) (spawnEvents e)
         \<lparr> pCache = c, pStdout = [], pStderr = [], pSettled = None,
            pEvents = [Spawn (spawnCommand (isWindows e) py) (buildArgs e) (isWindows e),
                       StdinWrite (documentText e), StdinEnd] \<rparr>"
  by (simp add: runProcess_def Let_def)

lemma runProcess_settled:
  assumes "\<forall>x\<in>set pre. \<not> isTerminal x" and "spawnEvents e = pre @ t # rest"
    and "isTerminal t" and "spawnThrew [t] = None"
  shows "pSettled (runProcess e py c)
     = pSettled (onEvent py (documentText e) t
         \<lparr> pCache = c, pStdout = stdoutOf pre, pStderr = stderrOf pre, pSettled = None,
            pEvents = [Spawn (spawnCommand (isWindows e) py) (buildArgs e) (isWindows e),
                       StdinWrite (documentText e), StdinEnd] \<rparr>)"
proof -
  let ?s0 = "\<lparr> pCache = c, pStdout = [], pStderr = [], pSettled = None,
            pEvents = [Spawn (spawnCommand (isWindows e) py) (buildArgs e) (isWindows e),
                       StdinWrite (documentText e), StdinEnd] \<rparr>"
  let ?s1 = "\<lparr> pCache = c, pStdout = stdoutOf pre, pStderr = stderrOf pre, pSettled = None,
            pEvents = [Spawn (spawnCommand (isWindows e) py) (buildArgs e) (isWindows e),
                       StdinWrite (documentText e), StdinEnd] \<rparr>"
  have pre: "fold (onEvent py (documentText e)) pre ?s0 = ?s1"
    using fold_data [OF assms(1), of py "documentText e" ?s0] by simp
  from assms(3) assms(4) obtain v where "pSettled (onEvent py (documentText e) t ?s1) = Some v"
    using onEvent_terminal_settles by blast
  moreover have "spawnThrew (spawnEvents e) = None"
    using spawnThrew_data [OF assms(1) assms(4)] assms(2) by simp
  ultimately show ?thesis
    using assms(2) pre by (simp add: runProcess_started fold_settled)
qed

lemma runProcess_events_last:
  assumes "\<forall>x\<in>set pre. \<not> isTerminal x" and "spawnEvents e = pre @ [t]"
    and "spawnThrew [t] = None"
  shows "pEvents (runProcess e py c)
     = pEvents (onEvent py (documentText e) t
         \<lparr> pCache = c, pStdout = stdoutOf pre, pStderr = stderrOf pre, pSettled = None,
            pEvents = [Spawn (spawnCommand (isWindows e) py) (buildArgs e) (isWindows e),
                       StdinWrite (documentText e), StdinEnd] \<rparr>)"
proof -
  have "spawnThrew (spawnEvents e) = None"
    using spawnThrew_data [OF assms(1) assms(3), of "[]"] assms(2) by simp
  then show ?thesis
    using fold_data [OF assms(1), of py "documentText e"] assms(2)
    by (simp add: runProcess_started)
qed

lemma runProcess_cache:
  "spawnThrew (spawnEvents e) = None \<Longrightarrow>
   pCache (runProcess e py c)
     = (if \<exists>x\<in>set (spawnEvents e). isErrorEvent x then unavailableFor py else c)"
  by (simp add: runProcess_started fold_cache_error fold_cache_keep)

lemma runProcess_threw:
  "spawnThrew (spawnEvents e) = Some m \<Longrightarrow>
   runProcess e py c
     = \<lparr> pCache = c, pStdout = [], pStderr = [], pSettled = Some (Reject (RejectError m)),
         pEvents = [Spawn (spawnCommand (isWindows e) py) (buildArgs e) (isWindows e)] \<rparr>"
  by (simp add: runProcess_def Let_def)

lemma success_settlement:
  assumes "\<forall>x\<in>set pre. \<not> isTerminal x"
    and "spawnEvents e = pre @ CloseEvent (Some 0) signal False # rest"
    and "\<not> truthyOpt signal"
  shows "pSettled (runProcess e py c)
     = Some (Resolve (if stdoutOf pre \<noteq> [] \<and> stdoutOf pre \<noteq> documentText e
                      then [Replace 0 (length (documentText e)) (stdoutOf pre)] else []))"
  using assms(3)
  by (simp add: runProcess_settled [OF assms(1) assms(2)] onClose_def Let_def)

lemmas ex_eval =
  exEnv_def provideDocumentFormattingEdits_def getPythonInterpreter_def fromUserPath_def
  fromExtension_def fromPath_def commonPythons_def versionCommand_def dq_def startsWith_def
  toLowerCase_def toLowerChar_def formatWith_def ensureChecked_def needsCheck_def
  initialCache_def checkMdformatAvailability_def execCallback_def truthy_def checkCommand_def
  runProcess_def onClose_def onError_def Let_def char_of_eq_iff availableFor_def
  unavailableFor_def formattingWith_def showMdformatNotAvailableError_def trim_def
  isWhiteSpace_def settle_def signalToString_def codeToString_def invalidPathMessage_def

lemma probeLoop_first:
  assumes "\<forall>x\<in>set pre. \<forall>out. execSync e (versionCommand x) = Some out
             \<longrightarrow> \<not> includesStr (toLowerCase out) ''python''"
    and "execSync e (versionCommand c) = Some out"
    and "includesStr (toLowerCase out) ''python''"
  shows "fst (probeLoop e (pre @ c # post)) = Some c
       \<and> filter isExecSync (snd (probeLoop e (pre @ c # post)))
           = map (\<lambda>x. ExecSync (versionCommand x)) (pre @ [c])"
  using assms
proof (induction pre)
  case Nil
  then show ?case by simp
next
  case (Cons x xs)
  then have ih: "fst (probeLoop e (xs @ c # post)) = Some c
       \<and> filter isExecSync (snd (probeLoop e (xs @ c # post)))
           = map (\<lambda>x. ExecSync (versionCommand x)) (xs @ [c])"
    by simp
  show ?case
  proof (cases "execSync e (versionCommand x)")
    case None
    with ih show ?thesis by (auto split: prod.splits)
  next
    case (Some o')
    with Cons.prems have "\<not> includesStr (toLowerCase o') ''python''" by simp
    with Some ih show ?thesis by (auto split: prod.splits)
  qed
qed

lemma fromUserPath_no_probe: "filter isExecSync (snd (fromUserPath e)) = []"
  by (simp add: fromUserPath_def invalidPathMessage_def Let_def split: option.splits)

lemma queryExtension_no_probe: "filter isExecSync (snd (queryExtension ext a)) = []"
  by (simp add: queryExtension_def extensionError_def
      split: exec_details.splits option.splits list.splits)

lemma fromExtension_no_probe: "filter isExecSync (snd (fromExtension e)) = []"
proof (cases "getExtension e")
  case None
  then show ?thesis by (simp add: fromExtension_def)
next
  case (Some ext)
  show ?thesis
  proof (cases "isActive ext")
    case True
    with Some show ?thesis by (simp add: fromExtension_def queryExtension_no_probe)
  next
    case False
    show ?thesis
    proof (cases "activate ext")
      case None
      with Some False show ?thesis by (simp add: fromExtension_def extensionError_def)
    next
      case (Some active)
      with \<open>getExtension e = Some ext\<close> False queryExtension_no_probe [of ext active]
      show ?thesis by (auto simp: fromExtension_def split: prod.splits)
    qed
  qed
qed

lemma getPythonInterpreter_fallthrough:
  assumes "fst (fromUserPath e) = None" and "fst (fromExtension e) = None"
  shows "getPythonInterpreter e
     = (fst (fromPath e), snd (fromUserPath e) @ snd (fromExtension e) @ snd (fromPath e))"
  using assms by (auto simp: getPythonInterpreter_def split: prod.splits option.splits)

lemma getPythonInterpreter_result:
  "fst (getPythonInterpreter e)
     = (case fst (fromUserPath e) of
          Some p \<Rightarrow> Some p
        | None \<Rightarrow> (case fst (fromExtension e) of Some p \<Rightarrow> Some p | None \<Rightarrow> fst (fromPath e)))"
  by (auto simp: getPythonInterpreter_def split: prod.splits option.splits)

lemma fromPath_result:
  "fst (fromPath e) = fst (probeLoop e (commonPythons (isWindows e)))"
  "filter isExecSync (snd (fromPath e))
     = filter isExecSync (snd (probeLoop e (commonPythons (isWindows e))))"
  by (auto simp: fromPath_def Let_def split: prod.splits option.splits)

lemma probeLoop_none:
  assumes "\<forall>x\<in>set cs. \<forall>out. execSync e (versionCommand x) = Some out
             \<longrightarrow> \<not> includesStr (toLowerCase out) ''python''"
  shows "fst (probeLoop e cs) = None
       \<and> filter isExecSync (snd (probeLoop e cs)) = map (\<lambda>x. ExecSync (versionCommand x)) cs"
  using assms
proof (induction cs)
  case Nil
  then show ?case by simp
next
  case (Cons x xs)
  then have ih: "fst (probeLoop e xs) = None
       \<and> filter isExecSync (snd (probeLoop e xs)) = map (\<lambda>x. ExecSync (versionCommand x)) xs"
    by simp
  show ?case
  proof (cases "execSync e (versionCommand x)")
    case None
    with ih show ?thesis by (auto split: prod.splits)
  next
    case (Some o')
    with Cons.prems have "\<not> includesStr (toLowerCase o') ''python''" by simp
    with Some ih show ?thesis by (auto split: prod.splits)
  qed
qed

lemma unconfigured_same_sources:
  "fromExtension (e\<lparr>cfgPythonPath := None\<rparr>) = fromExtension e"
  "fromPath (e\<lparr>cfgPythonPath := None\<rparr>) = fromPath e"
proof -
  show "fromExtension (e\<lparr>cfgPythonPath := None\<rparr>) = fromExtension e"
    by (simp add: fromExtension_def)
  have pl: "probeLoop (e\<lparr>cfgPythonPath := None\<rparr>) cs = probeLoop e cs" for cs
    by (induction cs) (simp_all split: option.splits)
  show "fromPath (e\<lparr>cfgPythonPath := None\<rparr>) = fromPath e"
    by (simp add: fromPath_def pl)
qed

lemma getPythonInterpreter_skipped:
  assumes "fromUserPath e = (None, [])"
  shows "getPythonInterpreter e = getPythonInterpreter (e\<lparr>cfgPythonPath := None\<rparr>)"
proof -
  have n: "fromUserPath (e\<lparr>cfgPythonPath := None\<rparr>) = (None, [])"
    by (simp add: fromUserPath_def)
  show ?thesis
    by (simp add: getPythonInterpreter_def assms n unconfigured_same_sources
        split: prod.splits option.splits)
qed

section \<open>Resolving the interpreter\<close>

text \<open>
  Claim C5, as amended. When the configured path is set, non-empty, not the string
  \<open>null\<close>, and does not exist on disk, the first step does not return it, and the result is
  what the Python extension and then the PATH probe yield, the same result as with no
  configured path at all. When the path is not blank, it is tested on disk and the failure
  is logged. When it is blank (white space only), it is neither tested nor logged: the
  whole resolution runs as with no configured path.
\<close>

theorem invalid_configured_path_falls_through:
  assumes "cfgPythonPath e = Some p" and "p \<noteq> []" and "p \<noteq> ''null''"
    and "\<not> accessSync e p"
  shows "fst (fromUserPath e) = None
       \<and> fst (getPythonInterpreter e)
           = (case fst (fromExtension e) of Some x \<Rightarrow> Some x | None \<Rightarrow> fst (fromPath e))
       \<and> fst (getPythonInterpreter e) = fst (getPythonInterpreter (e\<lparr>cfgPythonPath := None\<rparr>))
       \<and> (trim p \<noteq> [] \<longrightarrow>
            AccessSync p \<in> set (snd (getPythonInterpreter e))
            \<and> invalidPathMessage p \<in> set (snd (getPythonInterpreter e)))
       \<and> (trim p = [] \<longrightarrow>
            getPythonInterpreter e = getPythonInterpreter (e\<lparr>cfgPythonPath := None\<rparr>))"
proof -
  have u: "fromUserPath e =
      (None, if trim p \<noteq> []
             then [LogInfo [''Using Python interpreter from '' @ dq @ ''mdformat.pythonPath''
                              @ dq @ '': '' @ p], AccessSync p, invalidPathMessage p]
             else [])"
    using assms by (simp add: fromUserPath_def truthy_def)
  have n: "fst (fromUserPath (e\<lparr>cfgPythonPath := None\<rparr>)) = None"
    by (simp add: fromUserPath_def)
  have g1: "fst (getPythonInterpreter e)
           = (case fst (fromExtension e) of Some x \<Rightarrow> Some x | None \<Rightarrow> fst (fromPath e))"
    using u by (simp add: getPythonInterpreter_result)
  have g2: "fst (getPythonInterpreter (e\<lparr>cfgPythonPath := None\<rparr>))
           = (case fst (fromExtension e) of Some x \<Rightarrow> Some x | None \<Rightarrow> fst (fromPath e))"
    using n by (simp add: getPythonInterpreter_result unconfigured_same_sources
        cong: option.case_cong)
  have m: "AccessSync p \<in> set (snd (getPythonInterpreter e))
            \<and> invalidPathMessage p \<in> set (snd (getPythonInterpreter e))" if "trim p \<noteq> []"
    using u that by (auto simp: getPythonInterpreter_def split: prod.splits option.splits)
  have b: "getPythonInterpreter e = getPythonInterpreter (e\<lparr>cfgPythonPath := None\<rparr>)"
    if "trim p = []"
    using u that by (simp add: getPythonInterpreter_skipped)
  show ?thesis
    using u m b g1 g2 by simp
qed

theorem invalid_configured_path_falls_through_witness:
  "fst (getPythonInterpreter (exEnv\<lparr>cfgPythonPath := Some ''/opt/venv/bin/python''\<rparr>))
     = Some ''python3''
   \<and> AccessSync ''/opt/venv/bin/python''
       \<in> set (snd (getPythonInterpreter (exEnv\<lparr>cfgPythonPath := Some ''/opt/venv/bin/python''\<rparr>)))
   \<and> invalidPathMessage ''/opt/venv/bin/python''
       \<in> set (snd (getPythonInterpreter (exEnv\<lparr>cfgPythonPath := Some ''/opt/venv/bin/python''\<rparr>)))
   \<and> getPythonInterpreter exBlankConfigured = getPythonInterpreter exEnv"
proof -
  let ?e = "exEnv\<lparr>cfgPythonPath := Some ''/opt/venv/bin/python''\<rparr>"
  have h1: "cfgPythonPath ?e = Some ''/opt/venv/bin/python''" by simp
  have h2: "''/opt/venv/bin/python'' \<noteq> []" by simp
  have h3: "trim ''/opt/venv/bin/python'' \<noteq> []" by (simp add: trim_def isWhiteSpace_def)
  have h4: "''/opt/venv/bin/python'' \<noteq> ''null''" by simp
  have h5: "\<not> accessSync ?e ''/opt/venv/bin/python''" by (simp add: exEnv_def)
  have i: "fst (getPythonInterpreter (?e\<lparr>cfgPythonPath := None\<rparr>)) = Some ''python3''"
    by (simp add: ex_eval)
  note t = invalid_configured_path_falls_through [OF h1 h2 h4 h5]
  from t h3 have a: "AccessSync ''/opt/venv/bin/python'' \<in> set (snd (getPythonInterpreter ?e))
      \<and> invalidPathMessage ''/opt/venv/bin/python'' \<in> set (snd (getPythonInterpreter ?e))"
    by blast
  from t have "fst (getPythonInterpreter ?e) = fst (getPythonInterpreter (?e\<lparr>cfgPythonPath := None\<rparr>))"
    by blast
  with i have r: "fst (getPythonInterpreter ?e) = Some ''python3''" by simp
  have k1: "cfgPythonPath exBlankConfigured = Some ''  ''"
    by (simp add: exBlankConfigured_def)
  have k2: "''  '' \<noteq> []" "''  '' \<noteq> ''null''" by simp_all
  have k3: "\<not> accessSync exBlankConfigured ''  ''"
    by (simp add: exBlankConfigured_def exEnv_def)
  have k4: "trim ''  '' = []" by (simp add: trim_def isWhiteSpace_def)
  have k5: "exBlankConfigured\<lparr>cfgPythonPath := None\<rparr> = exEnv"
    by (simp add: exBlankConfigured_def exEnv_def)
  from invalid_configured_path_falls_through [OF k1 k2 k3] k4
  have "getPythonInterpreter exBlankConfigured
          = getPythonInterpreter (exBlankConfigured\<lparr>cfgPythonPath := None\<rparr>)"
    by blast
  with k5 have "getPythonInterpreter exBlankConfigured = getPythonInterpreter exEnv" by simp
  with a r show ?thesis by simp
qed

text \<open>
  The claim as first stated fails in two ways. The result can be the very string that was
  configured: a configured bare command \<open>python3\<close> names no file, and the PATH probe then
  returns \<open>python3\<close>. And a configured path of two spaces, which is set, not empty, not
  \<open>null\<close> and not on disk, is passed over without a test on disk and without a log entry.
\<close>

theorem invalid_configured_path_counterexample:
  "cfgPythonPath exBareConfigured = Some ''python3''
   \<and> ''python3'' \<noteq> [] \<and> ''python3'' \<noteq> ''null''
   \<and> \<not> accessSync exBareConfigured ''python3''
   \<and> fst (getPythonInterpreter exBareConfigured) = Some ''python3''
   \<and> cfgPythonPath exBlankConfigured = Some ''  ''
   \<and> ''  '' \<noteq> [] \<and> ''  '' \<noteq> ''null''
   \<and> \<not> accessSync exBlankConfigured ''  ''
   \<and> snd (fromUserPath exBlankConfigured) = []
   \<and> invalidPathMessage ''  '' \<notin> set (snd (getPythonInterpreter exBlankConfigured))
   \<and> AccessSync ''  '' \<notin> set (snd (getPythonInterpreter exBlankConfigured))"
  by (simp add: exBareConfigured_def exBlankConfigured_def ex_eval)

text \<open>
  Claim C6. When neither the configured path nor the Python extension gives an
  interpreter, the candidates of the platform list (\<open>python.exe\<close>, \<open>python3.exe\<close>,
  \<open>py.exe\<close> on Windows, \<open>python3\<close>, \<open>python\<close> elsewhere) are probed in order with the
  command \<open>"candidate" --version\<close>. Every candidate whose command fails or whose output, in
  lower case, does not contain \<open>python\<close> is skipped: when a candidate's output contains
  it and no earlier one's does, that candidate is returned as it stands in the list, the
  probes made are those of the candidates up to it, and no later one is probed; when no
  candidate's output contains it, every candidate is probed in order and there is no
  result.
\<close>

theorem path_probe_first_match:
  assumes "fst (fromUserPath e) = None" and "fst (fromExtension e) = None"
  shows "(commonPythons (isWindows e) = pre @ c # post
          \<and> (\<forall>x\<in>set pre. \<forall>out. execSync e (versionCommand x) = Some out
                 \<longrightarrow> \<not> (\<exists>u v. toLowerCase out = u @ ''python'' @ v))
          \<and> execSync e (versionCommand c) = Some out
          \<and> toLowerCase out = u @ ''python'' @ v
          \<longrightarrow> fst (getPythonInterpreter e) = Some c
              \<and> filter isExecSync (snd (getPythonInterpreter e))
                  = map (\<lambda>x. ExecSync (versionCommand x)) (pre @ [c]))
       \<and> ((\<forall>x\<in>set (commonPythons (isWindows e)). \<forall>out.
              execSync e (versionCommand x) = Some out
                \<longrightarrow> \<not> (\<exists>u v. toLowerCase out = u @ ''python'' @ v))
          \<longrightarrow> fst (getPythonInterpreter e) = None
              \<and> filter isExecSync (snd (getPythonInterpreter e))
                  = map (\<lambda>x. ExecSync (versionCommand x)) (commonPythons (isWindows e)))
       \<and> commonPythons (isWindows e)
           = (if isWindows e then [''python.exe'', ''python3.exe'', ''py.exe'']
              else [''python3'', ''python''])
       \<and> versionCommand c = [CHR 0x22] @ c @ [CHR 0x22] @ '' --version''"
proof -
  have first: "fst (getPythonInterpreter e) = Some c
              \<and> filter isExecSync (snd (getPythonInterpreter e))
                  = map (\<lambda>x. ExecSync (versionCommand x)) (pre @ [c])"
    if l: "commonPythons (isWindows e) = pre @ c # post"
      and r0: "\<forall>x\<in>set pre. \<forall>out. execSync e (versionCommand x) = Some out
                 \<longrightarrow> \<not> (\<exists>u v. toLowerCase out = u @ ''python'' @ v)"
      and o: "execSync e (versionCommand c) = Some out"
      and m: "toLowerCase out = u @ ''python'' @ v"
  proof -
    have a: "includesStr (toLowerCase out) ''python''"
      using m includesStr_iff by blast
    have r: "\<forall>x\<in>set pre. \<forall>out. execSync e (versionCommand x) = Some out
               \<longrightarrow> \<not> includesStr (toLowerCase out) ''python''"
      using r0 by (simp add: includesStr_iff)
    show ?thesis
      using probeLoop_first [OF r o a, of post] l
      by (simp add: getPythonInterpreter_fallthrough [OF assms(1) assms(2)] fromPath_result
          fromUserPath_no_probe fromExtension_no_probe)
  qed
  have none: "fst (getPythonInterpreter e) = None
              \<and> filter isExecSync (snd (getPythonInterpreter e))
                  = map (\<lambda>x. ExecSync (versionCommand x)) (commonPythons (isWindows e))"
    if r0: "\<forall>x\<in>set (commonPythons (isWindows e)). \<forall>out.
              execSync e (versionCommand x) = Some out
                \<longrightarrow> \<not> (\<exists>u v. toLowerCase out = u @ ''python'' @ v)"
  proof -
    have r: "\<forall>x\<in>set (commonPythons (isWindows e)). \<forall>out.
               execSync e (versionCommand x) = Some out
                 \<longrightarrow> \<not> includesStr (toLowerCase out) ''python''"
      using r0 by (simp add: includesStr_iff)
    show ?thesis
      using probeLoop_none [OF r]
      by (simp add: getPythonInterpreter_fallthrough [OF assms(1) assms(2)] fromPath_result
          fromUserPath_no_probe fromExtension_no_probe)
  qed
  have l: "commonPythons (isWindows e)
           = (if isWindows e then [''python.exe'', ''python3.exe'', ''py.exe'']
              else [''python3'', ''python''])"
    by (simp add: commonPythons_def)
  have v: "versionCommand c = [CHR 0x22] @ c @ [CHR 0x22] @ '' --version''"
    by (simp add: versionCommand_def dq_def)
  show ?thesis
    using first none l v by blast
qed

theorem path_probe_first_match_witness:
  "commonPythons (isWindows exWindows) = [''python.exe'', ''python3.exe'', ''py.exe'']
   \<and> fst (getPythonInterpreter exWindows) = Some ''py.exe''
   \<and> filter isExecSync (snd (getPythonInterpreter exWindows))
       = [ExecSync (versionCommand ''python.exe''), ExecSync (versionCommand ''python3.exe''),
          ExecSync (versionCommand ''py.exe'')]
   \<and> fst (getPythonInterpreter exNoPython) = None
   \<and> filter isExecSync (snd (getPythonInterpreter exNoPython))
       = [ExecSync (versionCommand ''python3''), ExecSync (versionCommand ''python'')]"
proof -
  have h1: "fst (fromUserPath exWindows) = None"
    by (simp add: exWindows_def exEnv_def fromUserPath_def)
  have h2: "fst (fromExtension exWindows) = None"
    by (simp add: exWindows_def exEnv_def fromExtension_def)
  have h3: "commonPythons (isWindows exWindows) = [''python.exe'', ''python3.exe''] @ ''py.exe'' # []"
    by (simp add: exWindows_def exEnv_def commonPythons_def)
  have h5: "execSync exWindows (versionCommand ''py.exe'') = Some ''PYTHON 3.12.0''"
    by (simp add: exWindows_def exEnv_def versionCommand_def dq_def)
  have h6: "toLowerCase ''PYTHON 3.12.0'' = [] @ ''python'' @ '' 3.12.0''"
    by (simp add: toLowerCase_def toLowerChar_def char_of_eq_iff)
  have n: "\<not> includesStr (toLowerCase ''Microsoft Store stub'') ''python''"
    by (simp add: toLowerCase_def toLowerChar_def char_of_eq_iff startsWith_def)
  have h4: "\<forall>x\<in>set [''python.exe'', ''python3.exe'']. \<forall>out.
              execSync exWindows (versionCommand x) = Some out
                \<longrightarrow> \<not> (\<exists>u v. toLowerCase out = u @ ''python'' @ v)"
    using n by (simp add: exWindows_def exEnv_def versionCommand_def dq_def includesStr_iff)
  have w: "fst (getPythonInterpreter exWindows) = Some ''py.exe''
       \<and> filter isExecSync (snd (getPythonInterpreter exWindows))
           = map (\<lambda>x. ExecSync (versionCommand x)) ([''python.exe'', ''python3.exe''] @ [''py.exe''])"
    using path_probe_first_match [OF h1 h2, where pre = "[''python.exe'', ''python3.exe'']"
        and c = "''py.exe''" and post = "[]" and out = "''PYTHON 3.12.0''" and u = "[]"
        and v = "'' 3.12.0''"] h3 h4 h5 h6
    by blast
  have g1: "fst (fromUserPath exNoPython) = None"
    by (simp add: exNoPython_def exEnv_def fromUserPath_def)
  have g2: "fst (fromExtension exNoPython) = None"
    by (simp add: exNoPython_def exEnv_def fromExtension_def)
  have g3: "commonPythons (isWindows exNoPython) = [''python3'', ''python'']"
    by (simp add: exNoPython_def exEnv_def commonPythons_def)
  have n2: "\<not> includesStr (toLowerCase []) ''python''"
    by (simp add: toLowerCase_def)
  have g4: "\<forall>x\<in>set (commonPythons (isWindows exNoPython)). \<forall>out.
              execSync exNoPython (versionCommand x) = Some out
                \<longrightarrow> \<not> (\<exists>u v. toLowerCase out = u @ ''python'' @ v)"
    using n2 by (simp add: g3 exNoPython_def exEnv_def versionCommand_def dq_def includesStr_iff)
  have z: "fst (getPythonInterpreter exNoPython) = None
       \<and> filter isExecSync (snd (getPythonInterpreter exNoPython))
           = map (\<lambda>x. ExecSync (versionCommand x)) (commonPythons (isWindows exNoPython))"
    using path_probe_first_match [OF g1 g2, where pre = "[]" and c = "[]" and post = "[]"
        and out = "[]" and u = "[]" and v = "[]"] g4
    by blast
  show ?thesis
    using w z h3 g3 by simp
qed

section \<open>The availability cache\<close>

text \<open>
  Claim C1. With a usable interpreter \<open>cur\<close>, the formatter runs the availability check
  (one \<open>cp.exec\<close> of the check command for \<open>cur\<close>) exactly when the cached verdict is
  unknown, or the interpreter of the last check is not \<open>cur\<close>, or the cached verdict is
  "not found"; otherwise no check runs. When the cache says "found" for \<open>cur\<close>, the
  formatting process is started at once from the cache as it is.
\<close>

theorem recheck_policy:
  assumes "fst (getPythonInterpreter e) = Some cur" and "truthy cur"
  shows "filter isExec (snd (snd (provideDocumentFormattingEdits e c)))
           = (if mdformatFound c = None \<or> pythonPathUsedForLastCheck c \<noteq> Some cur
                 \<or> mdformatFound c = Some False
              then [Exec (checkCommand cur)] else [])
       \<and> (mdformatFound c = Some True \<and> pythonPathUsedForLastCheck c = Some cur \<longrightarrow>
            provideDocumentFormattingEdits e c =
              (pSettled (runProcess e cur c), pCache (runProcess e cur c),
               snd (getPythonInterpreter e) @ [formattingWith cur] @ pEvents (runProcess e cur c)))"
proof
  have "filter isExec (snd (snd (formatWith e cur c)))
          = (if needsCheck c cur then [Exec (checkCommand cur)] else [])"
    using assms(2) ensureChecked_events(1) [OF assms(2), of e c]
    by (simp add: formatWith_unfold runProcess_no_exec formattingWith_def
        showMdformatNotAvailableError_events)
  then show "filter isExec (snd (snd (provideDocumentFormattingEdits e c)))
           = (if mdformatFound c = None \<or> pythonPathUsedForLastCheck c \<noteq> Some cur
                 \<or> mdformatFound c = Some False
              then [Exec (checkCommand cur)] else [])"
    using assms counted_filters(1) [OF getPythonInterpreter_quiet [of e]]
    by (simp add: pdfe_unfold needsCheck_def)
next
  show "mdformatFound c = Some True \<and> pythonPathUsedForLastCheck c = Some cur \<longrightarrow>
            provideDocumentFormattingEdits e c =
              (pSettled (runProcess e cur c), pCache (runProcess e cur c),
               snd (getPythonInterpreter e) @ [formattingWith cur] @ pEvents (runProcess e cur c))"
  proof
    assume hit: "mdformatFound c = Some True \<and> pythonPathUsedForLastCheck c = Some cur"
    then have "\<not> needsCheck c cur" by (simp add: needsCheck_def)
    then have ec: "ensureChecked e cur c = (c, [])" by (rule ensureChecked_hit)
    from hit have "c = availableFor cur" by (simp add: availableFor_def)
    with ec hit assms show "provideDocumentFormattingEdits e c =
              (pSettled (runProcess e cur c), pCache (runProcess e cur c),
               snd (getPythonInterpreter e) @ [formattingWith cur] @ pEvents (runProcess e cur c))"
      by (simp add: pdfe_unfold formatWith_unfold)
  qed
qed

theorem recheck_policy_witness:
  "filter isExec (snd (snd (provideDocumentFormattingEdits exEnv initialCache)))
      = [Exec (checkCommand ''python3'')]
   \<and> filter isExec (snd (snd (provideDocumentFormattingEdits exEnv (availableFor ''python3'')))) = []
   \<and> filter isExec (snd (snd (provideDocumentFormattingEdits exEnv (unavailableFor ''python3''))))
      = [Exec (checkCommand ''python3'')]
   \<and> filter isExec (snd (snd (provideDocumentFormattingEdits exEnv (availableFor ''python''))))
      = [Exec (checkCommand ''python3'')]
   \<and> filter isSpawn (snd (snd (provideDocumentFormattingEdits exEnv (availableFor ''python3''))))
      = [Spawn ''python3'' [''-m'', ''mdformat'', ''--end-of-line'', ''keep'', ''-''] False]"
proof -
  have i: "fst (getPythonInterpreter exEnv) = Some ''python3''"
    using exEnv_interpreter [of "[]"] by (simp add: exEnv_def)
  have t: "truthy ''python3''" by (simp add: truthy_def)
  have a: "buildArgs exEnv = [''-m'', ''mdformat'', ''--end-of-line'', ''keep'', ''-'']"
    by (simp add: buildArgs_def exEnv_def)
  have w: "spawnCommand (isWindows exEnv) ''python3'' = ''python3''" "\<not> isWindows exEnv"
    by (simp_all add: spawnCommand_def exEnv_def)
  have "provideDocumentFormattingEdits exEnv (availableFor ''python3'') =
      (pSettled (runProcess exEnv ''python3'' (availableFor ''python3'')),
       pCache (runProcess exEnv ''python3'' (availableFor ''python3'')),
       snd (getPythonInterpreter exEnv) @ [formattingWith ''python3'']
         @ pEvents (runProcess exEnv ''python3'' (availableFor ''python3'')))"
    using recheck_policy [OF i t, of "availableFor ''python3''", THEN conjunct2]
    by (simp add: availableFor_def)
  then have s: "filter isSpawn (snd (snd (provideDocumentFormattingEdits exEnv (availableFor ''python3''))))
      = [Spawn ''python3'' [''-m'', ''mdformat'', ''--end-of-line'', ''keep'', ''-''] False]"
    using counted_filters(2) [OF getPythonInterpreter_quiet [of exEnv]] a w
    by (simp add: runProcess_spawn formattingWith_def)
  show ?thesis
    using recheck_policy [OF i t, of initialCache, THEN conjunct1]
      recheck_policy [OF i t, of "availableFor ''python3''", THEN conjunct1]
      recheck_policy [OF i t, of "unavailableFor ''python3''", THEN conjunct1]
      recheck_policy [OF i t, of "availableFor ''python''", THEN conjunct1]
      s
    by (simp add: initialCache_def availableFor_def unavailableFor_def)
qed

text \<open>
  Claim C8. The callback run when the Python extension reports changed execution details
  sets the cached verdict to unknown and leaves the interpreter of the last check as it
  was.
\<close>

theorem invalidation_resets_verdict_only:
  "mdformatFound (fst (onDidChangeExecutionDetails afterActivation c)) = None
   \<and> pythonPathUsedForLastCheck (fst (onDidChangeExecutionDetails afterActivation c))
       = pythonPathUsedForLastCheck c"
  by (simp add: onDidChangeExecutionDetails_def)

theorem invalidation_resets_verdict_only_witness:
  "fst (onDidChangeExecutionDetails False (availableFor ''python3''))
     = \<lparr> mdformatFound = None, pythonPathUsedForLastCheck = Some ''python3'' \<rparr>"
  using invalidation_resets_verdict_only [of False "availableFor ''python3''"]
  by (simp add: availableFor_def)

section \<open>The command line\<close>



section \<open>The outcome of the formatter process\<close>

text \<open>
  Claim C3. The promise is settled by the first terminal event of the process, after the
  data chunks \<open>pre\<close>, whatever follows it. An error event rejects with the error. A close
  event with cancellation requested rejects with \<open>Cancelled\<close>, whatever the exit code and
  the signal. Otherwise a close event with a signal rejects with
  \<open>Terminated by signal\<close> and its name, whatever the exit code. Otherwise an exit code
  other than 0 rejects with the accumulated standard error, or with
  \<open>mdformat exited with code N\<close> when that is empty. Otherwise the promise resolves from
  the accumulated standard output.
\<close>

theorem outcome_classification:
  assumes "\<forall>x\<in>set pre. \<not> isTerminal x"
  shows "pSettled (runProcess (e\<lparr>spawnEvents := pre @ ErrorEvent m # rest\<rparr>) py c)
           = Some (Reject (RejectError m))
       \<and> pSettled (runProcess (e\<lparr>spawnEvents := pre @ CloseEvent code signal True # rest\<rparr>) py c)
           = Some (Reject (RejectString ''Cancelled''))
       \<and> (truthy sg \<longrightarrow>
            pSettled (runProcess (e\<lparr>spawnEvents := pre @ CloseEvent code (Some sg) False # rest\<rparr>) py c)
              = Some (Reject (RejectString (''Terminated by signal '' @ sg))))
       \<and> (\<not> truthyOpt signal \<and> code \<noteq> Some 0 \<longrightarrow>
            pSettled (runProcess (e\<lparr>spawnEvents := pre @ CloseEvent code signal False # rest\<rparr>) py c)
              = Some (Reject (RejectString
                  (if stderrOf pre = [] then ''mdformat exited with code '' @ codeToString code
                   else stderrOf pre))))
       \<and> (\<not> truthyOpt signal \<longrightarrow>
            pSettled (runProcess (e\<lparr>spawnEvents := pre @ CloseEvent (Some 0) signal False # rest\<rparr>) py c)
              = Some (Resolve
                  (if stdoutOf pre \<noteq> [] \<and> stdoutOf pre \<noteq> documentText e
                   then [Replace 0 (length (documentText e)) (stdoutOf pre)] else [])))"
  using assms
  by (simp add: runProcess_settled [where pre = pre and rest = rest] onError_def onClose_def
      Let_def truthy_def signalToString_def)

theorem outcome_classification_witness:
  "pSettled (runProcess (exEnv\<lparr>spawnEvents := [StderrData ''syntax error''] @ ErrorEvent ''spawn ENOENT'' # [CloseEvent (Some (- 2)) None True]\<rparr>) ''python3'' initialCache)
     = Some (Reject (RejectError ''spawn ENOENT''))
   \<and> pSettled (runProcess (exEnv\<lparr>spawnEvents := [StderrData ''syntax error''] @ CloseEvent (Some 1) (Some ''SIGTERM'') True # [CloseEvent (Some (- 2)) None True]\<rparr>) ''python3'' initialCache)
     = Some (Reject (RejectString ''Cancelled''))
   \<and> pSettled (runProcess (exEnv\<lparr>spawnEvents := [StderrData ''syntax error''] @ CloseEvent (Some 1) (Some ''SIGTERM'') False # [CloseEvent (Some (- 2)) None True]\<rparr>) ''python3'' initialCache)
     = Some (Reject (RejectString ''Terminated by signal SIGTERM''))
   \<and> pSettled (runProcess (exEnv\<lparr>spawnEvents := [StderrData ''syntax error''] @ CloseEvent (Some 1) None False # [CloseEvent (Some (- 2)) None True]\<rparr>) ''python3'' initialCache)
     = Some (Reject (RejectString ''syntax error''))
   \<and> pSettled (runProcess (exEnv\<lparr>spawnEvents := [] @ CloseEvent (Some 2) None False # []\<rparr>) ''python3'' initialCache)
     = Some (Reject (RejectString ''mdformat exited with code 2''))
   \<and> pSettled (runProcess (exEnv\<lparr>spawnEvents := [StdoutData ''# G''] @ CloseEvent (Some 0) None False # []\<rparr>) ''python3'' initialCache)
     = Some (Resolve [Replace 0 3 ''# G''])"
proof -
  have p1: "\<forall>x\<in>set [StderrData ''syntax error'']. \<not> isTerminal x" by simp
  have p2: "\<forall>x\<in>set []. \<not> isTerminal x" by simp
  have p3: "\<forall>x\<in>set [StdoutData ''# G'']. \<not> isTerminal x" by simp
  have d: "documentText exEnv = ''# H''" by (simp add: exEnv_def)
  have n: "codeToString (Some 2) = ''2''"
    by (simp add: codeToString_def intToString_def natToString.simps digitChar_def char_of_eq_iff)
  show ?thesis
    using outcome_classification [OF p1, where e = exEnv and m = "''spawn ENOENT''"
        and rest = "[CloseEvent (Some (- 2)) None True]" and py = "''python3''"
        and c = initialCache and code = "Some 1" and signal = "Some ''SIGTERM''"
        and sg = "''SIGTERM''"]
      outcome_classification [OF p1, where e = exEnv and m = "''spawn ENOENT''"
        and rest = "[CloseEvent (Some (- 2)) None True]" and py = "''python3''"
        and c = initialCache and code = "Some 1" and signal = None and sg = "''SIGTERM''"]
      outcome_classification [OF p2, where e = exEnv and m = "''spawn ENOENT''" and rest = "[]"
        and py = "''python3''" and c = initialCache and code = "Some 2" and signal = None
        and sg = "''SIGTERM''"]
      outcome_classification [OF p3, where e = exEnv and m = "''spawn ENOENT''" and rest = "[]"
        and py = "''python3''" and c = initialCache and code = "Some 2" and signal = None
        and sg = "''SIGTERM''"]
      d n
    by (simp add: truthy_def)
qed

text \<open>
  The cache after the formatter process, when \<open>cp.spawn\<close> has returned a child process for
  the interpreter \<open>cur\<close>: if the process emits an error event, the cache says "not found"
  for \<open>cur\<close>; if it emits none, whatever its exit code, the cache says "found" for \<open>cur\<close>.
\<close>

lemma error_event_downgrades_cache:
  assumes "filter isSpawn (snd (snd (provideDocumentFormattingEdits e c))) \<noteq> []"
    and "fst (getPythonInterpreter e) = Some cur"
    and "spawnThrew (spawnEvents e) = None"
  shows "((\<exists>x\<in>set (spawnEvents e). isErrorEvent x) \<longrightarrow>
            fst (snd (provideDocumentFormattingEdits e c)) = unavailableFor cur)
       \<and> ((\<forall>x\<in>set (spawnEvents e). \<not> isErrorEvent x) \<longrightarrow>
            fst (snd (provideDocumentFormattingEdits e c)) = availableFor cur)"
proof -
  from assms(1) obtain cur' where c': "fst (getPythonInterpreter e) = Some cur'" and
    "provideDocumentFormattingEdits e c =
           (pSettled (runProcess e cur' (availableFor cur')),
            pCache (runProcess e cur' (availableFor cur')),
            snd (getPythonInterpreter e) @ snd (ensureChecked e cur' c) @ [formattingWith cur']
              @ pEvents (runProcess e cur' (availableFor cur')))"
    by (rule pdfe_spawned)
  moreover from c' assms(2) have "cur' = cur" by simp
  ultimately show ?thesis
    by (simp add: runProcess_cache [OF assms(3)])
qed

text \<open>
  The same for every request in which \<open>cp.spawn\<close> throws: the promise is rejected with the
  error thrown, the cache says "found" for the interpreter, and nothing is shown.
\<close>

lemma spawn_throw_keeps_cache:
  assumes "filter isSpawn (snd (snd (provideDocumentFormattingEdits e c))) \<noteq> []"
    and "fst (getPythonInterpreter e) = Some cur"
    and "spawnThrew (spawnEvents e) = Some m"
  shows "fst (provideDocumentFormattingEdits e c) = Some (Reject (RejectError m))
       \<and> fst (snd (provideDocumentFormattingEdits e c)) = availableFor cur
       \<and> filter isShowError (snd (snd (provideDocumentFormattingEdits e c))) = []"
proof -
  from assms(1) obtain cur' where c': "fst (getPythonInterpreter e) = Some cur'"
    and t: "truthy cur'" and
    u: "provideDocumentFormattingEdits e c =
           (pSettled (runProcess e cur' (availableFor cur')),
            pCache (runProcess e cur' (availableFor cur')),
            snd (getPythonInterpreter e) @ snd (ensureChecked e cur' c) @ [formattingWith cur']
              @ pEvents (runProcess e cur' (availableFor cur')))"
    by (rule pdfe_spawned)
  from c' assms(2) have "cur' = cur" by simp
  with u t show ?thesis
    using counted_filters(3) [OF getPythonInterpreter_quiet [of e]]
      ensureChecked_events(3) [of cur e c]
    by (simp add: runProcess_threw [OF assms(3)] formattingWith_def)
qed

text \<open>
  Claim C4 says that a failure to start the process sets the cache to "not found" for the
  interpreter attempted. The handler of the error event does so, and an exit code other
  than 0 leaves the cache at "found". But when \<open>cp.spawn\<close> itself throws, here on a custom
  argument with a null byte, the process is not started and the promise is rejected with
  the error, yet the cache still says "found" for \<open>python3\<close> and no message is shown.
\<close>

theorem spawn_throw_leaves_cache_available:
  "cfgArgs exSpawnThrows = [[CHR 0x00]]
   \<and> fst (provideDocumentFormattingEdits exSpawnThrows initialCache)
      = Some (Reject (RejectError ''The argument args[4] must be a string without null bytes.''))
   \<and> fst (snd (provideDocumentFormattingEdits exSpawnThrows initialCache)) = availableFor ''python3''
   \<and> filter isShowError (snd (snd (provideDocumentFormattingEdits exSpawnThrows initialCache))) = []
   \<and> fst (provideDocumentFormattingEdits exStartFailure initialCache)
      = Some (Reject (RejectError ''spawn python3 ENOENT''))
   \<and> fst (snd (provideDocumentFormattingEdits exStartFailure initialCache))
      = unavailableFor ''python3''
   \<and> fst (provideDocumentFormattingEdits exSyntaxError initialCache)
      = Some (Reject (RejectString ''syntax error''))
   \<and> fst (snd (provideDocumentFormattingEdits exSyntaxError initialCache)) = availableFor ''python3''"
  by (simp add: exSpawnThrows_def exStartFailure_def exSyntaxError_def ex_eval)

text \<open>
  Claim C9. When the process closes with cancellation requested and nothing has settled
  the promise before, the promise rejects with \<open>Cancelled\<close> and the whole request shows no
  error message; the process phase logs one information entry and nothing else.
\<close>

theorem cancelled_is_silent:
  assumes "filter isSpawn (snd (snd (provideDocumentFormattingEdits e c))) \<noteq> []"
    and "spawnEvents e = pre @ [CloseEvent code signal True]"
    and "\<forall>x\<in>set pre. \<not> isTerminal x"
  shows "fst (provideDocumentFormattingEdits e c) = Some (Reject (RejectString ''Cancelled''))
       \<and> filter isShowError (snd (snd (provideDocumentFormattingEdits e c))) = []
       \<and> pEvents (runProcess e py c')
           = [Spawn (spawnCommand (isWindows e) py) (buildArgs e) (isWindows e),
              StdinWrite (documentText e), StdinEnd, LogInfo [''Formatting cancelled by user.'']]"
proof -
  from assms(1) obtain cur where cur: "truthy cur" and
    u: "provideDocumentFormattingEdits e c =
           (pSettled (runProcess e cur (availableFor cur)),
            pCache (runProcess e cur (availableFor cur)),
            snd (getPythonInterpreter e) @ snd (ensureChecked e cur c) @ [formattingWith cur]
              @ pEvents (runProcess e cur (availableFor cur)))"
    by (rule pdfe_spawned)
  have e2: "spawnEvents e = pre @ CloseEvent code signal True # []"
    using assms(2) by simp
  have r: "pSettled (runProcess e cur (availableFor cur)) = Some (Reject (RejectString ''Cancelled''))"
    by (simp add: runProcess_settled [OF assms(3) e2] onClose_def)
  have q: "filter isShowError (pEvents (runProcess e cur (availableFor cur))) = []"
    by (simp add: runProcess_events_last [OF assms(3) assms(2)] onClose_def)
  have p: "pEvents (runProcess e py c')
           = [Spawn (spawnCommand (isWindows e) py) (buildArgs e) (isWindows e),
              StdinWrite (documentText e), StdinEnd, LogInfo [''Formatting cancelled by user.'']]"
    by (simp add: runProcess_events_last [OF assms(3) assms(2)] onClose_def)
  show ?thesis
    using u r q p counted_filters(3) [OF getPythonInterpreter_quiet [of e]]
      ensureChecked_events(3) [OF cur, of e c]
    by (simp add: formattingWith_def)
qed

theorem cancelled_is_silent_witness:
  "fst (provideDocumentFormattingEdits exCancelled initialCache)
     = Some (Reject (RejectString ''Cancelled''))
   \<and> filter isShowError (snd (snd (provideDocumentFormattingEdits exCancelled initialCache))) = []"
proof -
  have s: "filter isSpawn (snd (snd (provideDocumentFormattingEdits exCancelled initialCache))) \<noteq> []"
    by (simp add: exCancelled_def ex_eval)
  have e: "spawnEvents exCancelled = [StdoutData ''# G''] @ [CloseEvent (Some 0) None True]"
    by (simp add: exCancelled_def exEnv_def)
  show ?thesis
    using cancelled_is_silent [OF s e, of "''python3''" initialCache] by simp
qed

section \<open>The edits of a successful run\<close>

text \<open>
  Claim C2, as amended. After a clean exit (code 0, no signal, not cancelled): when the
  output equals the document text there is no edit; when the output differs from it and
  is not empty there is exactly one edit, replacing the range from offset 0 to the length
  of the document by the output.
\<close>

theorem edit_on_success:
  assumes "filter isSpawn (snd (snd (provideDocumentFormattingEdits e c))) \<noteq> []"
    and "spawnEvents e = pre @ CloseEvent (Some 0) signal False # rest"
    and "\<forall>x\<in>set pre. \<not> isTerminal x"
    and "\<not> truthyOpt signal"
  shows "(stdoutOf pre = documentText e \<longrightarrow>
            fst (provideDocumentFormattingEdits e c) = Some (Resolve []))
       \<and> (stdoutOf pre \<noteq> documentText e \<and> stdoutOf pre \<noteq> [] \<longrightarrow>
            fst (provideDocumentFormattingEdits e c)
              = Some (Resolve [Replace 0 (length (documentText e)) (stdoutOf pre)]))"
proof -
  from assms(1) obtain cur where
    "provideDocumentFormattingEdits e c =
           (pSettled (runProcess e cur (availableFor cur)),
            pCache (runProcess e cur (availableFor cur)),
            snd (getPythonInterpreter e) @ snd (ensureChecked e cur c) @ [formattingWith cur]
              @ pEvents (runProcess e cur (availableFor cur)))"
    by (rule pdfe_spawned)
  then show ?thesis
    by (simp add: success_settlement [OF assms(3) assms(2) assms(4)])
qed

theorem edit_on_success_witness:
  "fst (provideDocumentFormattingEdits exReformatted initialCache)
     = Some (Resolve [Replace 0 3 ''# G''])
   \<and> fst (provideDocumentFormattingEdits exUnchanged initialCache) = Some (Resolve [])"
proof -
  have s1: "filter isSpawn (snd (snd (provideDocumentFormattingEdits exReformatted initialCache))) \<noteq> []"
    by (simp add: exReformatted_def ex_eval)
  have e1: "spawnEvents exReformatted
              = [StdoutData ''# '', StdoutData ''G''] @ CloseEvent (Some 0) None False # []"
    by (simp add: exReformatted_def exEnv_def)
  have s2: "filter isSpawn (snd (snd (provideDocumentFormattingEdits exUnchanged initialCache))) \<noteq> []"
    by (simp add: exUnchanged_def ex_eval)
  have e2: "spawnEvents exUnchanged = [StdoutData ''# H''] @ CloseEvent (Some 0) None False # []"
    by (simp add: exUnchanged_def exEnv_def)
  have d: "documentText exReformatted = ''# H''" "documentText exUnchanged = ''# H''"
    by (simp_all add: exReformatted_def exUnchanged_def exEnv_def)
  show ?thesis
    using edit_on_success [OF s1 e1] edit_on_success [OF s2 e2] d by simp
qed

text \<open>
  An output that differs from the document gives no edit when it is empty.
\<close>

theorem edit_on_success_counterexample:
  "filter isSpawn (snd (snd (provideDocumentFormattingEdits exEmptyOutput initialCache))) \<noteq> []
   \<and> spawnEvents exEmptyOutput = [CloseEvent (Some 0) None False]
   \<and> stdoutOf (spawnEvents exEmptyOutput) \<noteq> documentText exEmptyOutput
   \<and> fst (provideDocumentFormattingEdits exEmptyOutput initialCache) = Some (Resolve [])
   \<and> fst (provideDocumentFormattingEdits exEmptyOutput initialCache)
       \<noteq> Some (Resolve [Replace 0 (length (documentText exEmptyOutput))
                           (stdoutOf (spawnEvents exEmptyOutput))])"
  by (simp add: exEmptyOutput_def ex_eval)

text \<open>
  Claim C10. After a clean exit with empty standard output there is no edit, also when
  the document is not empty.
\<close>

theorem empty_output_no_edit:
  assumes "filter isSpawn (snd (snd (provideDocumentFormattingEdits e c))) \<noteq> []"
    and "spawnEvents e = pre @ CloseEvent (Some 0) signal False # rest"
    and "\<forall>x\<in>set pre. \<not> isTerminal x"
    and "\<not> truthyOpt signal"
    and "stdoutOf pre = []"
  shows "fst (provideDocumentFormattingEdits e c) = Some (Resolve [])"
proof -
  from assms(1) obtain cur where
    "provideDocumentFormattingEdits e c =
           (pSettled (runProcess e cur (availableFor cur)),
            pCache (runProcess e cur (availableFor cur)),
            snd (getPythonInterpreter e) @ snd (ensureChecked e cur c) @ [formattingWith cur]
              @ pEvents (runProcess e cur (availableFor cur)))"
    by (rule pdfe_spawned)
  then show ?thesis
    using assms(5) by (simp add: success_settlement [OF assms(3) assms(2) assms(4)])
qed

theorem empty_output_no_edit_witness:
  "documentText exWarning = ''# H''
   \<and> fst (provideDocumentFormattingEdits exWarning initialCache) = Some (Resolve [])"
proof -
  have s: "filter isSpawn (snd (snd (provideDocumentFormattingEdits exWarning initialCache))) \<noteq> []"
    by (simp add: exWarning_def ex_eval)
  have e: "spawnEvents exWarning = [StderrData ''warning''] @ CloseEvent (Some 0) None False # []"
    by (simp add: exWarning_def exEnv_def)
  have d: "documentText exWarning = ''# H''"
    by (simp add: exWarning_def exEnv_def)
  show ?thesis
    using empty_output_no_edit [OF s e] d by simp
qed

end
